theory Spec2Isabelle
  imports Main
begin

section \<open>Python values, exceptions and query results\<close>

text \<open>
  The dashboard script \<^verbatim>\<open>snowflake-data-diff.py\<close> is dynamically typed: the names it
  binds hold \<^verbatim>\<open>None\<close>, strings, booleans or other objects. \<open>PObj ty s\<close> stands for a
  value of any other type (a timestamp of the catalog, say), with the name of its type and
  its \<^verbatim>\<open>str()\<close>. A row fetched by \<^verbatim>\<open>cur.fetchall()\<close> is a tuple of such values, a query
  result is a list of rows.
\<close>

datatype pyval = PNone | PStr string | PBool bool | PObj string string

type_synonym pyrow = "pyval list"

text \<open>
  An exception is a value: its class and its message. \<open>OtherError\<close> is any other
  subclass of \<^verbatim>\<open>Exception\<close> that a collaborator (the warehouse connector, the diff
  engine, pandas) raises.
\<close>

datatype error =
    ValueError string
  | TypeError string
  | KeyError string
  | NameError string
  | OtherError string

text \<open>
  \<^verbatim>\<open>str(e)\<close>, as an f-string renders the exception. A \<^verbatim>\<open>KeyError\<close> shows the
  \<^verbatim>\<open>repr\<close> of its key: the key in single quotes, for a key without quotes and escapes, as
  the column labels of the script are (Python quotes a key that holds a single quote
  differently; such keys are not modelled).
\<close>

fun message :: "error \<Rightarrow> string" where
  "message (ValueError m) = m"
| "message (TypeError m) = m"
| "message (KeyError k) = [CHR 0x27] @ k @ [CHR 0x27]"
| "message (NameError m) = m"
| "message (OtherError m) = m"

text \<open>Sequencing of steps that may raise: the first exception ends the run.\<close>

definition bindE :: "error + 'a \<Rightarrow> ('a \<Rightarrow> error + 'b) \<Rightarrow> error + 'b" where
  "bindE m f = (case m of Inl e \<Rightarrow> Inl e | Inr x \<Rightarrow> f x)"

text \<open>Truthiness, as \<^verbatim>\<open>if x and y\<close> and \<^verbatim>\<open>if not x\<close> read a value.\<close>

fun truthy :: "pyval \<Rightarrow> bool" where
  "truthy PNone = False"
| "truthy (PStr s) = (s \<noteq> [])"
| "truthy (PBool b) = b"
| "truthy (PObj ty s) = True"

text \<open>\<^verbatim>\<open>str(x)\<close>, as an f-string \<^verbatim>\<open>f"{x}"\<close> renders a value.\<close>

fun py_str :: "pyval \<Rightarrow> string" where
  "py_str PNone = ''None''"
| "py_str (PStr s) = s"
| "py_str (PBool b) = (if b then ''True'' else ''False'')"
| "py_str (PObj ty s) = s"

fun type_name :: "pyval \<Rightarrow> string" where
  "type_name PNone = ''NoneType''"
| "type_name (PStr s) = ''str''"
| "type_name (PBool b) = ''bool''"
| "type_name (PObj ty s) = ty"

text \<open>
  The right operand of \<^verbatim>\<open>"literal" + x\<close>: a string, or the concatenation raises
  \<^verbatim>\<open>TypeError\<close>.
\<close>

fun str_operand :: "pyval \<Rightarrow> error + string" where
  "str_operand (PStr s) = Inr s"
| "str_operand v =
     Inl (TypeError (''can only concatenate str (not '' @ [CHR 0x22] @ type_name v @
        [CHR 0x22] @ '') to str''))"

section \<open>Data frames\<close>

text \<open>
  A pandas \<^verbatim>\<open>DataFrame\<close>: the column labels and the rows, every row as wide as the
  labels. The labels the script uses are distinct.
\<close>

record dataframe =
  df_columns :: "string list"
  df_rows :: "pyrow list"

fun show_digits :: "nat \<Rightarrow> nat \<Rightarrow> string" where
  "show_digits 0 n = []"
| "show_digits (Suc fuel) n =
     (if n < 10 then [char_of (48 + n)]
      else show_digits fuel (n div 10) @ [char_of (48 + n mod 10)])"

definition show_nat :: "nat \<Rightarrow> string" where
  "show_nat n = show_digits (Suc n) n"

definition data_width :: "pyrow list \<Rightarrow> nat" where
  "data_width data = foldr max (map length data) 0"

definition pad_row :: "nat \<Rightarrow> pyrow \<Rightarrow> pyrow" where
  "pad_row n r = r @ replicate (n - length r) PNone"

text \<open>
  \<^verbatim>\<open>pd.DataFrame(data, columns=names)\<close> on a list of tuples: the data are as wide as
  their longest row (shorter rows are padded), and pandas raises \<^verbatim>\<open>ValueError\<close>
  (\<^verbatim>\<open>"5 columns passed, passed data had 4 columns"\<close>) when that width is not the number of
  labels. An empty list gives an empty frame with the labels.
\<close>

definition DataFrame :: "pyrow list \<Rightarrow> string list \<Rightarrow> error + dataframe" where
  "DataFrame data names =
     (if data = [] then Inr \<lparr>df_columns = names, df_rows = []\<rparr>
      else if data_width data = length names
      then Inr \<lparr>df_columns = names, df_rows = map (pad_row (length names)) data\<rparr>
      else Inl (ValueError (show_nat (length names) @ '' columns passed, passed data had '' @
                  show_nat (data_width data) @ '' columns'')))"

fun index_of :: "string \<Rightarrow> string list \<Rightarrow> nat option" where
  "index_of name [] = None"
| "index_of name (c # cs) =
     (if c = name then Some 0
      else (case index_of name cs of None \<Rightarrow> None | Some i \<Rightarrow> Some (Suc i)))"

fun cell_at :: "pyrow \<Rightarrow> nat \<Rightarrow> pyval" where
  "cell_at [] i = PNone"
| "cell_at (v # vs) 0 = v"
| "cell_at (v # vs) (Suc i) = cell_at vs i"

text \<open>\<^verbatim>\<open>df[name]\<close>: the column as a series, \<^verbatim>\<open>KeyError\<close> when there is no such label.\<close>

definition getitem :: "dataframe \<Rightarrow> string \<Rightarrow> error + pyval list" where
  "getitem df name =
     (case index_of name (df_columns df) of
        None \<Rightarrow> Inl (KeyError name)
      | Some i \<Rightarrow> Inr (map (\<lambda>r. cell_at r i) (df_rows df)))"

text \<open>The first column of a frame: what \<^verbatim>\<open>st.selectbox\<close> offers when it is given a
  whole frame as its options.\<close>

definition first_column :: "dataframe \<Rightarrow> pyval list" where
  "first_column df = map (\<lambda>r. cell_at r 0) (df_rows df)"

text \<open>
  The operators \<^verbatim>\<open>~\<close> and \<^verbatim>\<open>&\<close> of lines 131--133 are modelled on boolean series,
  which is what the flag columns of a materialized diff are. On a series that holds a
  \<^verbatim>\<open>None\<close> the expression raises \<^verbatim>\<open>TypeError\<close>, and the model raises it for every
  other cell that is not a boolean too; pandas itself depends on the type there (it is
  bitwise on integers, and fails elsewhere on strings), which the model does not follow.
\<close>

fun as_bool :: "pyval \<Rightarrow> error + bool" where
  "as_bool (PBool b) = Inr b"
| "as_bool v = Inl (TypeError (''bad operand type for unary ~: '' @ [CHR 0x27] @ type_name v @ [CHR 0x27]))"

fun bool_series :: "pyval list \<Rightarrow> error + bool list" where
  "bool_series [] = Inr []"
| "bool_series (v # vs) =
     bindE (as_bool v) (\<lambda>b. bindE (bool_series vs) (\<lambda>bs. Inr (b # bs)))"

text \<open>\<^verbatim>\<open>df.loc[mask]\<close>: the rows at which the mask holds, in order.\<close>

definition loc :: "dataframe \<Rightarrow> bool list \<Rightarrow> dataframe" where
  "loc df keep = df\<lparr>df_rows := map fst (filter snd (zip (df_rows df) keep))\<rparr>"

section \<open>The three buckets (lines 131--137)\<close>

definition mask_not_in_target :: "bool list \<Rightarrow> bool list \<Rightarrow> bool list" where
  "mask_not_in_target a b = map2 (\<lambda>x y. x \<and> \<not> y) a b"

definition mask_not_in_source :: "bool list \<Rightarrow> bool list \<Rightarrow> bool list" where
  "mask_not_in_source a b = map2 (\<lambda>x y. \<not> x \<and> y) a b"

definition mask_value_mismatch :: "bool list \<Rightarrow> bool list \<Rightarrow> bool list" where
  "mask_value_mismatch a b = map2 (\<lambda>x y. \<not> x \<and> \<not> y) a b"

record classification =
  not_in_target :: dataframe
  not_in_source :: dataframe
  value_mismatch :: dataframe
  total_not_in_target :: nat
  total_not_in_source :: nat
  total_value_mismatch :: nat

definition classify :: "dataframe \<Rightarrow> error + classification" where
  "classify diff_op =
     bindE (getitem diff_op ''is_exclusive_a'') (\<lambda>ca.
     bindE (getitem diff_op ''is_exclusive_b'') (\<lambda>cb.
     bindE (bool_series cb) (\<lambda>b.
     bindE (bool_series ca) (\<lambda>a.
       let t = loc diff_op (mask_not_in_target a b);
           s = loc diff_op (mask_not_in_source a b);
           m = loc diff_op (mask_value_mismatch a b)
       in Inr \<lparr>not_in_target = t, not_in_source = s, value_mismatch = m,
               total_not_in_target = length (df_rows t),
               total_not_in_source = length (df_rows s),
               total_value_mismatch = length (df_rows m)\<rparr>))))"

section \<open>Effects\<close>

text \<open>
  What a run does to the outside, in order: a call of \<^verbatim>\<open>run_query_sf\<close>, a debugging
  \<^verbatim>\<open>print\<close>, a widget or message put on the page, a log line, a call of the diff engine
  or of \<^verbatim>\<open>pd.read_sql_query\<close>. Layout calls (\<^verbatim>\<open>st.columns\<close>, the figure's own
  construction) put nothing on the page by themselves and are left out.
\<close>

datatype event =
    Query string
  | Printed string "pyrow list"
  | Selectbox string "pyval list" int
  | LogError string
  | StError string
  | ConnectToTable pyval pyval pyval
  | DiffTables "pyval list option" string
  | ReadSql string
  | PlotlyChart nat nat nat
  | Subheader string
  | DownloadButton string string string
  | StWrite "pyval list"

text \<open>A computation: the effects so far, and an exception or a result.\<close>

type_synonym 'a comp = "event list \<times> (error + 'a)"

definition ret :: "'a \<Rightarrow> 'a comp" where
  "ret x = ([], Inr x)"

definition raise :: "error \<Rightarrow> 'a comp" where
  "raise e = ([], Inl e)"

definition emit :: "event \<Rightarrow> unit comp" where
  "emit ev = ([ev], Inr ())"

definition lift :: "error + 'a \<Rightarrow> 'a comp" where
  "lift r = ([], r)"

definition bindC :: "'a comp \<Rightarrow> ('a \<Rightarrow> 'b comp) \<Rightarrow> 'b comp" where
  "bindC m f =
     (case m of
        (es, Inl e) \<Rightarrow> (es, Inl e)
      | (es, Inr x) \<Rightarrow> (case f x of (es', r) \<Rightarrow> (es @ es', r)))"

section \<open>The table resolver: \<^verbatim>\<open>load_sf_db_list\<close> (lines 52--88)\<close>

text \<open>
  The collaborators of the resolver: the local time zone read at start-up (line 28), the
  cached query function \<^verbatim>\<open>run_query_sf\<close> (lines 40--44), which returns the fetched rows
  or raises, and the user, who answers every \<^verbatim>\<open>st.selectbox\<close> (label, options, widget
  key) with a value.
\<close>

record resolver_env =
  current_tz :: string
  run_query_sf :: "string \<Rightarrow> error + pyrow list"
  selectbox :: "string \<Rightarrow> pyval list \<Rightarrow> int \<Rightarrow> pyval"

definition run_query :: "resolver_env \<Rightarrow> string \<Rightarrow> (pyrow list) comp" where
  "run_query env q = ([Query q], run_query_sf env q)"

definition select :: "resolver_env \<Rightarrow> string \<Rightarrow> pyval list \<Rightarrow> int \<Rightarrow> pyval comp" where
  "select env label options k = ([Selectbox label options k], Inr (selectbox env label options k))"

text \<open>The query texts of lines 54, 61, 68 and 75.\<close>

definition db_query :: "string \<Rightarrow> string" where
  "db_query tz =
     ''SELECT DATABASE_NAME, CONVERT_TIMEZONE('' @ [CHR 0x27] @ tz @ [CHR 0x27] @
     '', CREATED) as CREATED_TIME, DATABASE_OWNER, COMMENT FROM SNOWFLAKE.INFORMATION_SCHEMA.DATABASES ORDER BY CREATED_TIME DESC;''"

definition schemas_query :: "string \<Rightarrow> string" where
  "schemas_query d = ''SHOW TERSE SCHEMAS IN '' @ d @ '';''"

definition tables_query :: "string \<Rightarrow> string \<Rightarrow> string" where
  "tables_query d s = ''SHOW TERSE TABLES IN SCHEMA '' @ d @ ''.'' @ s @ '';''"

definition columns_query :: "string \<Rightarrow> string \<Rightarrow> string \<Rightarrow> string" where
  "columns_query d s t = ''SHOW TERSE COLUMNS IN '' @ d @ ''.'' @ s @ ''.'' @ t @ '';''"

text \<open>The \<^verbatim>\<open>columns=\<close> lists of lines 58, 65, 72 and 79.\<close>

definition db_columns :: "string list" where
  "db_columns = [''DATABASE_NAME'', ''CREATED'', ''DATABASE_OWNER'', ''COMMENT'', ''UNKNOWN_COLUMN'']"

definition schema_columns :: "string list" where
  "schema_columns = [''created_on'', ''name'', ''kind'', ''database_name'', ''SCHEMA_NAME'']"

definition table_columns :: "string list" where
  "table_columns = [''created_on'', ''name'', ''kind'', ''database_name'', ''SCHEMA_NAME'']"

definition column_columns :: "string list" where
  "column_columns = [''table_name'', ''schema_name'', ''column_name'', ''data_type'', ''null?'',
     ''default'', ''kind'', ''expression'', ''comment'', ''database_name'', ''autoincrement'']"

text \<open>Lines 54--59: the database listing and the user's database.\<close>

definition list_databases :: "resolver_env \<Rightarrow> int \<Rightarrow> pyval comp" where
  "list_databases env count =
     bindC (run_query env (db_query (current_tz env))) (\<lambda>db_list.
     bindC (if db_list = [] then raise (ValueError ''No databases found.'') else ret ()) (\<lambda>_.
     bindC (emit (Printed ''db_list:'' db_list)) (\<lambda>_.
     bindC (lift (DataFrame db_list db_columns)) (\<lambda>db_list_df.
     select env ''Please select the database that you would like to compare?''
       (first_column db_list_df) (count + 1)))))"

text \<open>Lines 61--66: the schema listing of the database and the user's schema.\<close>

definition list_schemas :: "resolver_env \<Rightarrow> int \<Rightarrow> pyval \<Rightarrow> pyval comp" where
  "list_schemas env count db_name =
     bindC (lift (str_operand db_name)) (\<lambda>d.
     bindC (run_query env (schemas_query d)) (\<lambda>schema_list.
     bindC (if schema_list = [] then raise (ValueError ''No schemas found.'') else ret ()) (\<lambda>_.
     bindC (emit (Printed ''schema_list:'' schema_list)) (\<lambda>_.
     bindC (lift (DataFrame schema_list schema_columns)) (\<lambda>schema_list_df.
     bindC (lift (getitem schema_list_df ''name'')) (\<lambda>names.
     select env ''Please select the schema that you would like to compare?''
       names (count + 2)))))))"

text \<open>Lines 68--73: the table listing of the schema and the user's table.\<close>

definition list_tables :: "resolver_env \<Rightarrow> int \<Rightarrow> pyval \<Rightarrow> pyval \<Rightarrow> pyval comp" where
  "list_tables env count db_name schema_name =
     bindC (lift (str_operand db_name)) (\<lambda>d.
     bindC (lift (str_operand schema_name)) (\<lambda>s.
     bindC (run_query env (tables_query d s)) (\<lambda>table_list.
     bindC (if table_list = [] then raise (ValueError ''No tables found.'') else ret ()) (\<lambda>_.
     bindC (emit (Printed ''Table List:'' table_list)) (\<lambda>_.
     bindC (lift (DataFrame table_list table_columns)) (\<lambda>table_list_df.
     bindC (lift (getitem table_list_df ''name'')) (\<lambda>names.
     select env ''Please select the table that you would like to compare?''
       names (count + 3))))))))"

text \<open>
  Lines 75--80: the column listing of the table (printed before it is tested for
  emptiness) and the user's key column. The frame is returned too: line 83 reads it again.
\<close>

definition list_columns ::
  "resolver_env \<Rightarrow> int \<Rightarrow> pyval \<Rightarrow> pyval \<Rightarrow> pyval \<Rightarrow> (pyval \<times> dataframe) comp" where
  "list_columns env count db_name schema_name table_name =
     bindC (lift (str_operand db_name)) (\<lambda>d.
     bindC (lift (str_operand schema_name)) (\<lambda>s.
     bindC (lift (str_operand table_name)) (\<lambda>t.
     bindC (run_query env (columns_query d s t)) (\<lambda>column_list.
     bindC (emit (Printed ''Column List:'' column_list)) (\<lambda>_.
     bindC (if column_list = [] then raise (ValueError ''No columns found.'') else ret ()) (\<lambda>_.
     bindC (lift (DataFrame column_list column_columns)) (\<lambda>column_list_df.
     bindC (lift (getitem column_list_df ''column_name'')) (\<lambda>names.
     bindC (select env ''Please select the unique key (primary key)?'' names (count + 4))
       (\<lambda>key_column_name. ret (key_column_name, column_list_df))))))))))"

text \<open>
  Lines 82--83. The three names are strings when line 82 is reached, since lines 61, 68
  and 75 have concatenated each of them to a literal.
\<close>

definition full_qual_name :: "pyval \<Rightarrow> pyval \<Rightarrow> pyval \<Rightarrow> error + string" where
  "full_qual_name db_name schema_name table_name =
     bindE (str_operand db_name) (\<lambda>d.
     bindE (str_operand schema_name) (\<lambda>s.
     bindE (str_operand table_name) (\<lambda>t. Inr (d @ ''.'' @ s @ ''.'' @ t))))"

type_synonym resolution = "pyval \<times> pyval \<times> pyval list option"

text \<open>The body of the \<^verbatim>\<open>try\<close> (lines 54--83).\<close>

definition load_body :: "resolver_env \<Rightarrow> int \<Rightarrow> resolution comp" where
  "load_body env count =
     bindC (list_databases env count) (\<lambda>db_name.
     bindC (list_schemas env count db_name) (\<lambda>schema_name.
     bindC (list_tables env count db_name schema_name) (\<lambda>table_name.
     bindC (list_columns env count db_name schema_name table_name) (\<lambda>(key_column_name, column_list_df).
     bindC (lift (full_qual_name db_name schema_name table_name)) (\<lambda>name.
     bindC (lift (getitem column_list_df ''column_name'')) (\<lambda>cols.
     ret (PStr name, key_column_name, Some cols)))))))"

definition load_error_text :: "error \<Rightarrow> string" where
  "load_error_text e = ''Error loading database/schema/table list: '' @ message e"

text \<open>
  The whole function: \<^verbatim>\<open>except Exception\<close> (lines 85--88) logs the exception, shows it
  and returns three \<^verbatim>\<open>None\<close>s.
\<close>

definition load_sf_db_list :: "resolver_env \<Rightarrow> int \<Rightarrow> event list \<times> resolution" where
  "load_sf_db_list env count =
     (case load_body env count of
        (es, Inr r) \<Rightarrow> (es, r)
      | (es, Inl e) \<Rightarrow>
          (es @ [LogError (load_error_text e), StError (load_error_text e)], (PNone, PNone, None)))"

section \<open>The diff action: the \<^verbatim>\<open>Show Table Diff\<close> handler (lines 120--171)\<close>

text \<open>
  The collaborators of the handler. \<^verbatim>\<open>SNOWFLAKE_CONN_INFO\<close> is read at line 123 and
  bound nowhere in the script: it is a parameter here, \<open>None\<close> when the name is unbound
  (reading it raises \<^verbatim>\<open>NameError\<close>). The diff engine (\<^verbatim>\<open>connect_to_table\<close>,
  \<^verbatim>\<open>diff_tables\<close>) and \<^verbatim>\<open>pd.read_sql_query\<close> are external: \<open>'h\<close> is the engine's table
  handle, \<open>'w\<close> the state of the warehouse, which draining \<^verbatim>\<open>diff_tables\<close> changes (it
  materializes the diff) also when it raises. \<open>to_csv\<close> is
  \<^verbatim>\<open>df.to_csv(index=False).encode('utf-8')\<close> of \<^verbatim>\<open>convert_df_csv\<close> (lines 47--49).
\<close>

record ('h, 'w) diff_env =
  SNOWFLAKE_CONN_INFO :: "pyval option"
  connect_to_table :: "pyval \<Rightarrow> pyval \<Rightarrow> pyval \<Rightarrow> error + 'h"
  diff_tables :: "'h \<Rightarrow> 'h \<Rightarrow> pyval list option \<Rightarrow> string \<Rightarrow> 'w \<Rightarrow> error option \<times> 'w"
  read_sql_query :: "string \<Rightarrow> 'w \<Rightarrow> error + dataframe"
  to_csv :: "dataframe \<Rightarrow> string"

text \<open>Line 125 and the query of line 130.\<close>

definition materialize_table_name :: "pyval \<Rightarrow> string" where
  "materialize_table_name full_qual_target_name = py_str full_qual_target_name @ ''_DIFF''"

definition read_back_query :: "string \<Rightarrow> string" where
  "read_back_query name = ''SELECT * FROM '' @ name @ '';''"

text \<open>
  Lines 123--137: the engine is bound to both tables and drained, the materialized table
  is read back and its rows are put into the buckets. The result is the effects, the
  warehouse left behind, and the classification or the exception that ended the run.
\<close>

definition compute_diff ::
  "('h, 'w) diff_env \<Rightarrow> resolution \<Rightarrow> resolution \<Rightarrow> 'w \<Rightarrow> event list \<times> 'w \<times> (error + classification)" where
  "compute_diff env src tgt w =
     (case src of (full_qual_source_name, source_key_col, source_col_list) \<Rightarrow>
     (case tgt of (full_qual_target_name, target_key_col, target_col_list) \<Rightarrow>
     (case SNOWFLAKE_CONN_INFO env of
        None \<Rightarrow>
          ([], w, Inl (NameError (''name '' @ [CHR 0x27] @ ''SNOWFLAKE_CONN_INFO'' @ [CHR 0x27] @
                                  '' is not defined'')))
      | Some info \<Rightarrow>
         (let c1 = ConnectToTable info full_qual_source_name source_key_col;
              c2 = ConnectToTable info full_qual_target_name target_key_col
          in (case connect_to_table env info full_qual_source_name source_key_col of
            Inl e \<Rightarrow> ([c1], w, Inl e)
          | Inr snowflake_table \<Rightarrow>
             (case connect_to_table env info full_qual_target_name target_key_col of
                Inl e \<Rightarrow> ([c1, c2], w, Inl e)
              | Inr snowflake_table2 \<Rightarrow>
                 (let name = materialize_table_name full_qual_target_name;
                      d = DiffTables source_col_list name;
                      q = read_back_query name
                  in (case diff_tables env snowflake_table snowflake_table2 source_col_list name w of
                    (Some e, w') \<Rightarrow> ([c1, c2, d], w', Inl e)
                  | (None, w') \<Rightarrow>
                     (case read_sql_query env q w' of
                        Inl e \<Rightarrow> ([c1, c2, d, ReadSql q], w', Inl e)
                      | Inr diff_op \<Rightarrow> ([c1, c2, d, ReadSql q], w', classify diff_op))))))))))"

text \<open>Lines 139--166: the chart of the three counts, then per bucket a heading, a download
  and the key column.\<close>

definition render :: "('h, 'w) diff_env \<Rightarrow> pyval \<Rightarrow> classification \<Rightarrow> unit comp" where
  "render env source_key_col c =
     bindC (emit (PlotlyChart (total_not_in_target c) (total_not_in_source c) (total_value_mismatch c))) (\<lambda>_.
     bindC (emit (Subheader ''Missing in Target Table'')) (\<lambda>_.
     bindC (emit (DownloadButton ''Click to Download'' (to_csv env (not_in_target c)) ''not_in_target.csv'')) (\<lambda>_.
     bindC (lift (getitem (not_in_target c) (py_str source_key_col @ ''_a''))) (\<lambda>col1.
     bindC (emit (StWrite col1)) (\<lambda>_.
     bindC (emit (Subheader ''Missing in Source Table'')) (\<lambda>_.
     bindC (emit (DownloadButton ''Click to Download'' (to_csv env (not_in_source c)) ''not_in_source.csv'')) (\<lambda>_.
     bindC (lift (getitem (not_in_source c) (py_str source_key_col @ ''_b''))) (\<lambda>col2.
     bindC (emit (StWrite col2)) (\<lambda>_.
     bindC (emit (Subheader ''Value Mismatch'')) (\<lambda>_.
     bindC (emit (DownloadButton ''Click to Download'' (to_csv env (value_mismatch c)) ''value_mismatch.csv'')) (\<lambda>_.
     bindC (lift (getitem (value_mismatch c) (py_str source_key_col @ ''_a''))) (\<lambda>col3.
     emit (StWrite col3)))))))))))))"

definition diff_error_text :: string where
  "diff_error_text = ''Error calculating table differences. Please check your selections and try again.''"

definition not_selected_text :: string where
  "not_selected_text = ''Source and Target tables must be selected before showing table diff.''"

text \<open>
  The handler, run when the button is pressed: the guard of line 122, the \<^verbatim>\<open>try\<close>
  body, and \<^verbatim>\<open>except Exception\<close> (lines 169--171), which shows one fixed message and
  logs the exception.
\<close>

definition show_table_diff ::
  "('h, 'w) diff_env \<Rightarrow> resolution \<Rightarrow> resolution \<Rightarrow> 'w \<Rightarrow> event list \<times> 'w" where
  "show_table_diff env src tgt w =
     (if truthy (fst src) \<and> truthy (fst tgt) then
        (case compute_diff env src tgt w of
           (es, w', Inl e) \<Rightarrow> (es @ [StError diff_error_text, LogError (message e)], w')
         | (es, w', Inr c) \<Rightarrow>
            (case render env (fst (snd src)) c of
               (es', Inl e) \<Rightarrow> (es @ es' @ [StError diff_error_text, LogError (message e)], w')
             | (es', Inr u) \<Rightarrow> (es @ es', w')))
      else ([StError not_selected_text], w))"

text \<open>The events that put a bucket, a count, a chart or a download on the page, and the
  calls of the engine and of the read-back.\<close>

fun is_output :: "event \<Rightarrow> bool" where
  "is_output (PlotlyChart a b c) = True"
| "is_output (Subheader s) = True"
| "is_output (DownloadButton l d f) = True"
| "is_output (StWrite col) = True"
| "is_output ev = False"

fun is_engine_call :: "event \<Rightarrow> bool" where
  "is_engine_call (ConnectToTable i n k) = True"
| "is_engine_call (DiffTables cols name) = True"
| "is_engine_call (ReadSql q) = True"
| "is_engine_call ev = False"

fun is_st_error :: "event \<Rightarrow> bool" where
  "is_st_error (StError m) = True"
| "is_st_error ev = False"

section \<open>Sample runs\<close>

text \<open>
  A materialized diff of four rows: one row only in the source, one only in the target,
  two whose values differ.
\<close>

definition example_diff :: dataframe where
  "example_diff =
     \<lparr>df_columns = [''is_exclusive_a'', ''is_exclusive_b'', ''ID_a'', ''ID_b''],
      df_rows = [[PBool True, PBool False, PStr ''1'', PNone],
                 [PBool False, PBool True, PNone, PStr ''2''],
                 [PBool False, PBool False, PStr ''3'', PStr ''3''],
                 [PBool False, PBool False, PStr ''4'', PStr ''4'']]\<rparr>"

text \<open>
  A catalog with one database, one schema, one table and one column. The database
  listing has the four columns that the \<^verbatim>\<open>SELECT\<close> of line 54 names.
\<close>

definition sample_db_rows :: "pyrow list" where
  "sample_db_rows =
     [[PStr ''SALES'', PObj ''datetime'' ''2024-01-01 00:00:00'', PStr ''SYSADMIN'', PNone]]"

definition sample_schema_rows :: "pyrow list" where
  "sample_schema_rows =
     [[PObj ''datetime'' ''2024-01-01 00:00:00'', PStr ''PUBLIC'', PNone, PStr ''SALES'', PNone]]"

definition sample_table_rows :: "pyrow list" where
  "sample_table_rows =
     [[PObj ''datetime'' ''2024-01-02 00:00:00'', PStr ''ORDERS'', PStr ''TABLE'', PStr ''SALES'',
       PStr ''PUBLIC'']]"

definition sample_column_rows :: "pyrow list" where
  "sample_column_rows =
     [[PStr ''ORDERS'', PStr ''PUBLIC'', PStr ''ID'', PStr ''NUMBER'', PStr ''NOT_NULL'', PNone,
       PStr ''COLUMN'', PNone, PNone, PStr ''SALES'', PStr []]]"

definition sample_catalog :: "pyrow list \<Rightarrow> pyrow list \<Rightarrow> string \<Rightarrow> error + pyrow list" where
  "sample_catalog dbs cols q =
     (if q = db_query ''UTC'' then Inr dbs
      else if q = schemas_query ''SALES'' then Inr sample_schema_rows
      else if q = tables_query ''SALES'' ''PUBLIC'' then Inr sample_table_rows
      else if q = columns_query ''SALES'' ''PUBLIC'' ''ORDERS'' then Inr cols
      else Inl (OtherError ''SQL compilation error''))"

text \<open>A user who leaves every select box at its first option.\<close>

definition first_option :: "string \<Rightarrow> pyval list \<Rightarrow> int \<Rightarrow> pyval" where
  "first_option label options k = (case options of [] \<Rightarrow> PNone | v # vs \<Rightarrow> v)"

definition sample_env :: "pyrow list \<Rightarrow> pyrow list \<Rightarrow> resolver_env" where
  "sample_env dbs cols =
     \<lparr>current_tz = ''UTC'', run_query_sf = sample_catalog dbs cols, selectbox = first_option\<rparr>"

text \<open>The same database listing with a fifth column added to every row.\<close>

definition widened_db_rows :: "pyrow list" where
  "widened_db_rows = map (\<lambda>r. r @ [PNone]) sample_db_rows"

text \<open>
  A diff engine that overwrites the materialized table with \<open>example_diff\<close>, over a
  warehouse that maps a table's name to its content.
\<close>

definition sample_engine :: "pyval option \<Rightarrow> (pyval \<times> pyval, string \<Rightarrow> dataframe option) diff_env" where
  "sample_engine info =
     \<lparr>SNOWFLAKE_CONN_INFO = info,
      connect_to_table = (\<lambda>i name k. Inr (name, k)),
      diff_tables = (\<lambda>h1 h2 cols name w. (None, w(name := Some example_diff))),
      read_sql_query = (\<lambda>q w.
        if q = read_back_query ''SALES.PUBLIC.ORDERS_DIFF''
        then (case w ''SALES.PUBLIC.ORDERS_DIFF'' of
                None \<Rightarrow> Inl (OtherError ''Object does not exist'')
              | Some f \<Rightarrow> Inr f)
        else Inl (OtherError ''SQL compilation error'')),
      to_csv = (\<lambda>df. concat (df_columns df))\<rparr>"


definition sample_resolution :: resolution where
  "sample_resolution = (PStr ''SALES.PUBLIC.ORDERS'', PStr ''ID'', Some [PStr ''ID''])"

definition unresolved :: resolution where
  "unresolved = (PNone, PNone, None)"

section \<open>The buckets partition the diff\<close>

lemma bindE_Inr [simp]: "bindE (Inr x) f = f x"
  by (simp add: bindE_def)

lemma bindE_Inl [simp]: "bindE (Inl e) f = Inl e"
  by (simp add: bindE_def)

lemma bool_series_length: "bool_series cs = Inr bs \<Longrightarrow> length bs = length cs"
proof (induction cs arbitrary: bs)
  case Nil
  then show ?case by simp
next
  case (Cons v vs)
  then show ?case
    by (cases v; cases "bool_series vs") auto
qed

lemma getitem_length: "getitem df name = Inr col \<Longrightarrow> length col = length (df_rows df)"
  by (auto simp: getitem_def split: option.splits)

lemma df_rows_loc: "df_rows (loc df keep) = map fst (filter snd (zip (df_rows df) keep))"
  by (simp add: loc_def)

lemma bucket_sizes:
  "length rows = length a \<Longrightarrow> length a = length b \<Longrightarrow>
   list_all2 (\<lambda>x y. \<not> (x \<and> y)) a b \<Longrightarrow>
   length (filter snd (zip rows (mask_not_in_target a b))) +
   length (filter snd (zip rows (mask_not_in_source a b))) +
   length (filter snd (zip rows (mask_value_mismatch a b))) = length rows"
proof (induction rows a b rule: list_induct3)
  case Nil
  then show ?case
    by (simp add: mask_not_in_target_def mask_not_in_source_def mask_value_mismatch_def)
next
  case (Cons r rows x a y b)
  then show ?case
    by (auto simp: mask_not_in_target_def mask_not_in_source_def mask_value_mismatch_def)
qed

lemma one_mask:
  "i < length a \<Longrightarrow> length b = length a \<Longrightarrow> \<not> (a ! i \<and> b ! i) \<Longrightarrow>
   (mask_not_in_target a b ! i \<and> \<not> mask_not_in_source a b ! i \<and> \<not> mask_value_mismatch a b ! i) \<or>
   (\<not> mask_not_in_target a b ! i \<and> mask_not_in_source a b ! i \<and> \<not> mask_value_mismatch a b ! i) \<or>
   (\<not> mask_not_in_target a b ! i \<and> \<not> mask_not_in_source a b ! i \<and> mask_value_mismatch a b ! i)"
  by (auto simp: mask_not_in_target_def mask_not_in_source_def mask_value_mismatch_def)

text \<open>
  Claim C1. Let the materialized diff have both flag columns, boolean throughout, and no
  row at which \<^verbatim>\<open>is_exclusive_a\<close> and \<^verbatim>\<open>is_exclusive_b\<close> are both true. Then the
  classification succeeds, its three buckets are the rows selected by the three masks of
  lines 131--133, at every row index exactly one of the three masks holds (so the buckets
  are pairwise disjoint and together hold every row), and the three counts add up to the
  number of rows.
\<close>

theorem buckets_partition:
  assumes ca: "getitem diff_op ''is_exclusive_a'' = Inr ca"
    and cb: "getitem diff_op ''is_exclusive_b'' = Inr cb"
    and a: "bool_series ca = Inr a"
    and b: "bool_series cb = Inr b"
    and excl: "\<forall>i<length (df_rows diff_op). \<not> (a ! i \<and> b ! i)"
  shows "\<exists>c. classify diff_op = Inr c \<and>
           not_in_target c = loc diff_op (mask_not_in_target a b) \<and>
           not_in_source c = loc diff_op (mask_not_in_source a b) \<and>
           value_mismatch c = loc diff_op (mask_value_mismatch a b) \<and>
           (\<forall>i<length (df_rows diff_op).
              (mask_not_in_target a b ! i \<and> \<not> mask_not_in_source a b ! i \<and> \<not> mask_value_mismatch a b ! i) \<or>
              (\<not> mask_not_in_target a b ! i \<and> mask_not_in_source a b ! i \<and> \<not> mask_value_mismatch a b ! i) \<or>
              (\<not> mask_not_in_target a b ! i \<and> \<not> mask_not_in_source a b ! i \<and> mask_value_mismatch a b ! i)) \<and>
           total_not_in_target c + total_not_in_source c + total_value_mismatch c =
             length (df_rows diff_op)"
proof -
  have la: "length a = length (df_rows diff_op)"
    using bool_series_length [OF a] getitem_length [OF ca] by simp
  have lb: "length b = length (df_rows diff_op)"
    using bool_series_length [OF b] getitem_length [OF cb] by simp
  have all2: "list_all2 (\<lambda>x y. \<not> (x \<and> y)) a b"
    using excl la lb by (simp add: list_all2_conv_all_nth)
  have sizes: "length (filter snd (zip (df_rows diff_op) (mask_not_in_target a b))) +
      length (filter snd (zip (df_rows diff_op) (mask_not_in_source a b))) +
      length (filter snd (zip (df_rows diff_op) (mask_value_mismatch a b))) =
      length (df_rows diff_op)"
    using la lb all2 by (intro bucket_sizes) simp_all
  have one: "\<forall>i<length (df_rows diff_op).
      (mask_not_in_target a b ! i \<and> \<not> mask_not_in_source a b ! i \<and> \<not> mask_value_mismatch a b ! i) \<or>
      (\<not> mask_not_in_target a b ! i \<and> mask_not_in_source a b ! i \<and> \<not> mask_value_mismatch a b ! i) \<or>
      (\<not> mask_not_in_target a b ! i \<and> \<not> mask_not_in_source a b ! i \<and> mask_value_mismatch a b ! i)"
  proof (intro allI impI)
    fix i assume i: "i < length (df_rows diff_op)"
    then have "\<not> (a ! i \<and> b ! i)" using excl by blast
    then show "(mask_not_in_target a b ! i \<and> \<not> mask_not_in_source a b ! i \<and> \<not> mask_value_mismatch a b ! i) \<or>
      (\<not> mask_not_in_target a b ! i \<and> mask_not_in_source a b ! i \<and> \<not> mask_value_mismatch a b ! i) \<or>
      (\<not> mask_not_in_target a b ! i \<and> \<not> mask_not_in_source a b ! i \<and> mask_value_mismatch a b ! i)"
      using one_mask [of i a b] i la lb by simp
  qed
  have cl: "classify diff_op =
      Inr \<lparr>not_in_target = loc diff_op (mask_not_in_target a b),
           not_in_source = loc diff_op (mask_not_in_source a b),
           value_mismatch = loc diff_op (mask_value_mismatch a b),
           total_not_in_target = length (df_rows (loc diff_op (mask_not_in_target a b))),
           total_not_in_source = length (df_rows (loc diff_op (mask_not_in_source a b))),
           total_value_mismatch = length (df_rows (loc diff_op (mask_value_mismatch a b)))\<rparr>"
    by (simp add: classify_def ca cb a b Let_def)
  show ?thesis
    using one sizes by (simp add: cl df_rows_loc)
qed

lemma example_flag_a:
  "getitem example_diff ''is_exclusive_a'' = Inr [PBool True, PBool False, PBool False, PBool False]"
  by (simp add: getitem_def example_diff_def)

lemma example_flag_b:
  "getitem example_diff ''is_exclusive_b'' = Inr [PBool False, PBool True, PBool False, PBool False]"
  by (simp add: getitem_def example_diff_def)

lemma example_rows:
  "df_rows example_diff =
     [[PBool True, PBool False, PStr ''1'', PNone],
      [PBool False, PBool True, PNone, PStr ''2''],
      [PBool False, PBool False, PStr ''3'', PStr ''3''],
      [PBool False, PBool False, PStr ''4'', PStr ''4'']]"
  by (simp add: example_diff_def)

text \<open>The theorem at \<open>example_diff\<close>.\<close>

theorem buckets_partition_witness:
  "\<exists>c. classify example_diff = Inr c \<and>
     df_rows (not_in_target c) = [[PBool True, PBool False, PStr ''1'', PNone]] \<and>
     df_rows (not_in_source c) = [[PBool False, PBool True, PNone, PStr ''2'']] \<and>
     total_not_in_target c + total_not_in_source c + total_value_mismatch c = 4"
proof -
  have a: "bool_series [PBool True, PBool False, PBool False, PBool False] = Inr [True, False, False, False]"
    by simp
  have b: "bool_series [PBool False, PBool True, PBool False, PBool False] = Inr [False, True, False, False]"
    by simp
  have excl: "\<forall>i<length (df_rows example_diff).
      \<not> ([True, False, False, False] ! i \<and> [False, True, False, False] ! i)"
    by (simp add: example_rows nth_Cons split: nat.splits)
  from buckets_partition [OF example_flag_a example_flag_b a b excl]
  show ?thesis
    by (auto simp: loc_def example_rows mask_not_in_target_def mask_not_in_source_def)
qed

text \<open>
  Claim C2. For the diff of four rows with the flag pairs (true, false), (false, true),
  (false, false), (false, false), the counts of lines 135--137 are 1 row missing in the
  target, 1 missing in the source and 2 value mismatches.
\<close>

theorem example_counts:
  "map_sum id (\<lambda>c. (total_not_in_target c, total_not_in_source c, total_value_mismatch c))
     (classify example_diff) = Inr (1, 1, 2)"
  by (simp add: classify_def example_flag_a example_flag_b Let_def loc_def example_rows
      mask_not_in_target_def mask_not_in_source_def mask_value_mismatch_def)

section \<open>The resolver\<close>

lemma bindC_pair:
  "bindC (es, r) f = (case r of Inl e \<Rightarrow> (es, Inl e) | Inr x \<Rightarrow> apfst ((@) es) (f x))"
  by (cases r; cases "f (projr r)") (simp_all add: bindC_def)

lemmas comp_defs = run_query_def raise_def ret_def emit_def lift_def select_def bindC_pair

lemma load_raises:
  "load_body env count = (es, Inl e) \<Longrightarrow>
   load_sf_db_list env count =
     (es @ [LogError (load_error_text e), StError (load_error_text e)], (PNone, PNone, None))"
  by (simp add: load_sf_db_list_def)

lemma load_returns:
  "load_body env count = (es, Inr r) \<Longrightarrow> load_sf_db_list env count = (es, r)"
  by (simp add: load_sf_db_list_def)

lemma list_databases_empty_query:
  "Query q \<in> set (fst (list_databases env count)) \<Longrightarrow> run_query_sf env q = Inr [] \<Longrightarrow>
   snd (list_databases env count) = Inl (ValueError ''No databases found.'')"
  by (auto simp: list_databases_def comp_defs split: sum.splits if_splits)

lemma list_schemas_empty_query:
  "Query q \<in> set (fst (list_schemas env count db_name)) \<Longrightarrow> run_query_sf env q = Inr [] \<Longrightarrow>
   snd (list_schemas env count db_name) = Inl (ValueError ''No schemas found.'')"
  by (auto simp: list_schemas_def comp_defs split: sum.splits if_splits)


lemma list_tables_empty_query:
  "Query q \<in> set (fst (list_tables env count db_name schema_name)) \<Longrightarrow>
   run_query_sf env q = Inr [] \<Longrightarrow>
   snd (list_tables env count db_name schema_name) = Inl (ValueError ''No tables found.'')"
  by (auto simp: list_tables_def comp_defs split: sum.splits if_splits)

lemma list_columns_empty_query:
  "Query q \<in> set (fst (list_columns env count db_name schema_name table_name)) \<Longrightarrow>
   run_query_sf env q = Inr [] \<Longrightarrow>
   snd (list_columns env count db_name schema_name table_name) = Inl (ValueError ''No columns found.'')"
  by (auto simp: list_columns_def comp_defs split: sum.splits if_splits)



lemma load_body_databases_raise:
  "list_databases env count = (es1, Inl e) \<Longrightarrow> load_body env count = (es1, Inl e)"
  by (simp add: load_body_def bindC_pair)

lemma load_body_schemas_raise:
  "list_databases env count = (es1, Inr d) \<Longrightarrow> list_schemas env count d = (es2, Inl e) \<Longrightarrow>
   load_body env count = (es1 @ es2, Inl e)"
  by (simp add: load_body_def bindC_pair)

lemma load_body_tables_raise:
  "list_databases env count = (es1, Inr d) \<Longrightarrow> list_schemas env count d = (es2, Inr s) \<Longrightarrow>
   list_tables env count d s = (es3, Inl e) \<Longrightarrow>
   load_body env count = (es1 @ es2 @ es3, Inl e)"
  by (simp add: load_body_def bindC_pair)

lemma load_body_columns_raise:
  "list_databases env count = (es1, Inr d) \<Longrightarrow> list_schemas env count d = (es2, Inr s) \<Longrightarrow>
   list_tables env count d s = (es3, Inr t) \<Longrightarrow> list_columns env count d s t = (es4, Inl e) \<Longrightarrow>
   load_body env count = (es1 @ es2 @ es3 @ es4, Inl e)"
  by (simp add: load_body_def bindC_pair)

lemma load_body_columns_return:
  "list_databases env count = (es1, Inr d) \<Longrightarrow> list_schemas env count d = (es2, Inr s) \<Longrightarrow>
   list_tables env count d s = (es3, Inr t) \<Longrightarrow>
   list_columns env count d s t = (es4, Inr (k, df)) \<Longrightarrow>
   load_body env count =
     (es1 @ es2 @ es3 @ es4,
      bindE (full_qual_name d s t) (\<lambda>name.
      bindE (getitem df ''column_name'') (\<lambda>cols. Inr (PStr name, k, Some cols))))"
  by (simp add: load_body_def bindC_pair lift_def ret_def bindE_def split: sum.splits)




lemma load_body_empty_query:
  assumes q: "Query q \<in> set (fst (load_body env count))" and r: "run_query_sf env q = Inr []"
  shows "\<exists>m. m \<in> {''No databases found.'', ''No schemas found.'', ''No tables found.'',
                     ''No columns found.''} \<and>
             snd (load_body env count) = Inl (ValueError m)"
proof -
  obtain es1 r1 where s1: "list_databases env count = (es1, r1)"
    by (cases "list_databases env count")
  have e1: "Query q \<in> set es1 \<Longrightarrow> r1 = Inl (ValueError ''No databases found.'')"
    using list_databases_empty_query [of q env count, OF _ r] s1 by simp
  show ?thesis
  proof (cases r1)
    case (Inl e)
    have lb: "load_body env count = (es1, Inl e)"
      using load_body_databases_raise [of env count es1 e] s1 Inl by simp
    then have "Query q \<in> set es1" using q by simp
    then have "e = ValueError ''No databases found.''" using e1 Inl by simp
    then have "snd (load_body env count) = Inl (ValueError ''No databases found.'')"
      using lb by simp
    then show ?thesis by (intro exI [of _ "''No databases found.''"]) simp
  next
    case d: (Inr d)
    have n1: "Query q \<notin> set es1" using e1 d by auto
    obtain es2 r2 where s2: "list_schemas env count d = (es2, r2)"
      by (cases "list_schemas env count d")
    have e2: "Query q \<in> set es2 \<Longrightarrow> r2 = Inl (ValueError ''No schemas found.'')"
      using list_schemas_empty_query [of q env count d, OF _ r] s2 by simp
    show ?thesis
    proof (cases r2)
      case (Inl e)
      have lb: "load_body env count = (es1 @ es2, Inl e)"
        using load_body_schemas_raise [of env count es1 d es2 e] s1 s2 d Inl by simp
      then have "Query q \<in> set es2" using q n1 by simp
      then have "e = ValueError ''No schemas found.''" using e2 Inl by simp
      then have "snd (load_body env count) = Inl (ValueError ''No schemas found.'')"
        using lb by simp
      then show ?thesis by (intro exI [of _ "''No schemas found.''"]) simp
    next
      case s: (Inr s)
      have n2: "Query q \<notin> set es2" using e2 s by auto
      obtain es3 r3 where s3: "list_tables env count d s = (es3, r3)"
        by (cases "list_tables env count d s")
      have e3: "Query q \<in> set es3 \<Longrightarrow> r3 = Inl (ValueError ''No tables found.'')"
        using list_tables_empty_query [of q env count d s, OF _ r] s3 by simp
      show ?thesis
      proof (cases r3)
        case (Inl e)
        have lb: "load_body env count = (es1 @ es2 @ es3, Inl e)"
          using load_body_tables_raise [of env count es1 d es2 s es3 e] s1 s2 s3 d s Inl by simp
        then have "Query q \<in> set es3" using q n1 n2 by simp
        then have "e = ValueError ''No tables found.''" using e3 Inl by simp
        then have "snd (load_body env count) = Inl (ValueError ''No tables found.'')"
          using lb by simp
        then show ?thesis by (intro exI [of _ "''No tables found.''"]) simp
      next
        case t: (Inr t)
        have n3: "Query q \<notin> set es3" using e3 t by auto
        obtain es4 r4 where s4: "list_columns env count d s t = (es4, r4)"
          by (cases "list_columns env count d s t")
        have e4: "Query q \<in> set es4 \<Longrightarrow> r4 = Inl (ValueError ''No columns found.'')"
          using list_columns_empty_query [of q env count d s t, OF _ r] s4 by simp
        show ?thesis
        proof (cases r4)
          case (Inl e)
          have lb: "load_body env count = (es1 @ es2 @ es3 @ es4, Inl e)"
            using load_body_columns_raise [of env count es1 d es2 s es3 t es4 e]
              s1 s2 s3 s4 d s t Inl by simp
          then have "Query q \<in> set es4" using q n1 n2 n3 by simp
          then have "e = ValueError ''No columns found.''" using e4 Inl by simp
          then have "snd (load_body env count) = Inl (ValueError ''No columns found.'')"
            using lb by simp
          then show ?thesis by (intro exI [of _ "''No columns found.''"]) simp
        next
          case (Inr kd)
          have n4: "Query q \<notin> set es4" using e4 Inr by auto
          obtain k df where kd: "kd = (k, df)" by (cases kd)
          have "fst (load_body env count) = es1 @ es2 @ es3 @ es4"
            using load_body_columns_return [of env count es1 d es2 s es3 t es4 k df]
              s1 s2 s3 s4 d s t Inr kd by simp
          then have False using q n1 n2 n3 n4 by simp
          then show ?thesis ..
        qed
      qed
    qed
  qed
qed


lemma load_events:
  "fst (load_body env count) = es \<Longrightarrow> Query q \<in> set (fst (load_sf_db_list env count)) \<Longrightarrow>
   Query q \<in> set es"
  by (cases "load_body env count"; cases "snd (load_body env count)")
     (auto simp: load_sf_db_list_def)

text \<open>
  Claim C4. If a catalog query that the resolver issues (for the databases, the schemas,
  the tables or the columns) returns no rows, the body of the \<^verbatim>\<open>try\<close> raises one of the
  four \<^verbatim>\<open>ValueError\<close>s of lines 56, 63, 70 and 78, and \<^verbatim>\<open>load_sf_db_list\<close> itself does
  not raise: it logs the message, shows it and returns \<^verbatim>\<open>(None, None, None)\<close>.
\<close>

theorem empty_listing_unresolved:
  assumes "Query q \<in> set (fst (load_sf_db_list env count))"
    and "run_query_sf env q = Inr []"
  shows "\<exists>es m. m \<in> {''No databases found.'', ''No schemas found.'', ''No tables found.'',
                        ''No columns found.''} \<and>
           load_body env count = (es, Inl (ValueError m)) \<and>
           load_sf_db_list env count =
             (es @ [LogError (''Error loading database/schema/table list: '' @ m),
                    StError (''Error loading database/schema/table list: '' @ m)],
              (PNone, PNone, None))"
proof -
  have "Query q \<in> set (fst (load_body env count))"
    using load_events [OF refl assms(1)] .
  from load_body_empty_query [OF this assms(2)]
  obtain m where m: "m \<in> {''No databases found.'', ''No schemas found.'', ''No tables found.'',
      ''No columns found.''}" and b: "snd (load_body env count) = Inl (ValueError m)"
    by blast
  obtain es where es: "load_body env count = (es, Inl (ValueError m))"
    using b by (cases "load_body env count") simp
  have "load_sf_db_list env count =
      (es @ [LogError (''Error loading database/schema/table list: '' @ m),
             StError (''Error loading database/schema/table list: '' @ m)],
       (PNone, PNone, None))"
    using load_raises [OF es] by (simp add: load_error_text_def)
  with m es show ?thesis by blast
qed

lemma sample_no_databases:
  "load_sf_db_list (sample_env [] sample_column_rows) 1 =
     ([Query (db_query ''UTC''),
       LogError ''Error loading database/schema/table list: No databases found.'',
       StError ''Error loading database/schema/table list: No databases found.''],
      (PNone, PNone, None))"
  by (simp add: load_sf_db_list_def load_body_def list_databases_def comp_defs sample_env_def
      sample_catalog_def load_error_text_def)

text \<open>The theorem at a warehouse without databases.\<close>

theorem empty_listing_unresolved_witness:
  "snd (load_sf_db_list (sample_env [] sample_column_rows) 1) = (PNone, PNone, None)"
proof -
  have q: "Query (db_query ''UTC'') \<in> set (fst (load_sf_db_list (sample_env [] sample_column_rows) 1))"
    by (simp add: sample_no_databases)
  have r: "run_query_sf (sample_env [] sample_column_rows) (db_query ''UTC'') = Inr []"
    by (simp add: sample_env_def sample_catalog_def)
  from empty_listing_unresolved [OF q r] show ?thesis by auto
qed

section \<open>Listings of the wrong width\<close>


lemma list_databases_mismatch:
  "run_query_sf env (db_query (current_tz env)) = Inr rows \<Longrightarrow> rows \<noteq> [] \<Longrightarrow>
   DataFrame rows db_columns = Inl e \<Longrightarrow>
   list_databases env count =
     ([Query (db_query (current_tz env)), Printed ''db_list:'' rows], Inl e)"
  by (simp add: list_databases_def comp_defs)

lemma list_schemas_mismatch:
  "run_query_sf env (schemas_query d) = Inr rows \<Longrightarrow> rows \<noteq> [] \<Longrightarrow>
   DataFrame rows schema_columns = Inl e \<Longrightarrow>
   list_schemas env count (PStr d) =
     ([Query (schemas_query d), Printed ''schema_list:'' rows], Inl e)"
  by (simp add: list_schemas_def comp_defs)

lemma list_tables_mismatch:
  "run_query_sf env (tables_query d s) = Inr rows \<Longrightarrow> rows \<noteq> [] \<Longrightarrow>
   DataFrame rows table_columns = Inl e \<Longrightarrow>
   list_tables env count (PStr d) (PStr s) =
     ([Query (tables_query d s), Printed ''Table List:'' rows], Inl e)"
  by (simp add: list_tables_def comp_defs)

lemma list_columns_mismatch:
  "run_query_sf env (columns_query d s t) = Inr rows \<Longrightarrow> rows \<noteq> [] \<Longrightarrow>
   DataFrame rows column_columns = Inl e \<Longrightarrow>
   list_columns env count (PStr d) (PStr s) (PStr t) =
     ([Query (columns_query d s t), Printed ''Column List:'' rows], Inl e)"
  by (simp add: list_columns_def comp_defs)

lemma DataFrame_mismatch:
  "rows \<noteq> [] \<Longrightarrow> data_width rows \<noteq> length names \<Longrightarrow>
   DataFrame rows names =
     Inl (ValueError (show_nat (length names) @ '' columns passed, passed data had '' @
                      show_nat (data_width rows) @ '' columns''))"
  by (simp add: DataFrame_def)

text \<open>
  At the schema, table and column steps a listing whose width is not the number of labels
  of lines 65, 72 and 79 makes \<^verbatim>\<open>pd.DataFrame\<close> raise; the exception is caught, logged
  and shown, and the resolver returns \<^verbatim>\<open>(None, None, None)\<close>.
\<close>

lemma later_listing_mismatch_unresolved:
  assumes step:
    "(names = schema_columns \<and> list_databases env count = (es1, Inr (PStr d)) \<and>
        run_query_sf env (schemas_query d) = Inr rows) \<or>
     (names = table_columns \<and> list_databases env count = (es1, Inr (PStr d)) \<and>
        list_schemas env count (PStr d) = (es2, Inr (PStr s)) \<and>
        run_query_sf env (tables_query d s) = Inr rows) \<or>
     (names = column_columns \<and> list_databases env count = (es1, Inr (PStr d)) \<and>
        list_schemas env count (PStr d) = (es2, Inr (PStr s)) \<and>
        list_tables env count (PStr d) (PStr s) = (es3, Inr (PStr t)) \<and>
        run_query_sf env (columns_query d s t) = Inr rows)"
    and rows: "rows \<noteq> []"
    and width: "data_width rows \<noteq> length names"
  shows "\<exists>es e. e = ValueError (show_nat (length names) @ '' columns passed, passed data had '' @
                              show_nat (data_width rows) @ '' columns'') \<and>
           load_body env count = (es, Inl e) \<and>
           load_sf_db_list env count =
             (es @ [LogError (load_error_text e), StError (load_error_text e)],
              (PNone, PNone, None))"
proof -
  let ?e = "ValueError (show_nat (length names) @ '' columns passed, passed data had '' @
                        show_nat (data_width rows) @ '' columns'')"
  have df: "DataFrame rows names = Inl ?e"
    using DataFrame_mismatch [OF rows width] .
  have "\<exists>es. load_body env count = (es, Inl ?e)"
    using step
  proof (elim disjE conjE)
    assume n: "names = schema_columns" and s1: "list_databases env count = (es1, Inr (PStr d))"
      and r: "run_query_sf env (schemas_query d) = Inr rows"
    show ?thesis
      using load_body_schemas_raise [OF s1 list_schemas_mismatch [OF r rows]] df n by blast
  next
    assume n: "names = table_columns" and s1: "list_databases env count = (es1, Inr (PStr d))"
      and s2: "list_schemas env count (PStr d) = (es2, Inr (PStr s))"
      and r: "run_query_sf env (tables_query d s) = Inr rows"
    show ?thesis
      using load_body_tables_raise [OF s1 s2 list_tables_mismatch [OF r rows]] df n by blast
  next
    assume n: "names = column_columns" and s1: "list_databases env count = (es1, Inr (PStr d))"
      and s2: "list_schemas env count (PStr d) = (es2, Inr (PStr s))"
      and s3: "list_tables env count (PStr d) (PStr s) = (es3, Inr (PStr t))"
      and r: "run_query_sf env (columns_query d s t) = Inr rows"
    show ?thesis
      using load_body_columns_raise [OF s1 s2 s3 list_columns_mismatch [OF r rows]] df n by blast
  qed
  then obtain es where es: "load_body env count = (es, Inl ?e)" ..
  show ?thesis
    using es load_raises [OF es] by blast
qed

section \<open>The sample catalog\<close>

lemma sample_queries:
  "run_query_sf (sample_env dbs cols) (db_query ''UTC'') = Inr dbs"
  "run_query_sf (sample_env dbs cols) (schemas_query ''SALES'') = Inr sample_schema_rows"
  "run_query_sf (sample_env dbs cols) (tables_query ''SALES'' ''PUBLIC'') = Inr sample_table_rows"
  "run_query_sf (sample_env dbs cols) (columns_query ''SALES'' ''PUBLIC'' ''ORDERS'') = Inr cols"
  by (simp_all add: sample_env_def sample_catalog_def db_query_def schemas_query_def
      tables_query_def columns_query_def)

lemma sample_tz: "current_tz (sample_env dbs cols) = ''UTC''"
  by (simp add: sample_env_def)

lemma sample_selectbox: "selectbox (sample_env dbs cols) label (v # vs) k = v"
  by (simp add: sample_env_def first_option_def)

lemma sample_databases:
  "list_databases (sample_env widened_db_rows cols) 1 =
     ([Query (db_query ''UTC''), Printed ''db_list:'' widened_db_rows,
       Selectbox ''Please select the database that you would like to compare?'' [PStr ''SALES''] 2],
      Inr (PStr ''SALES''))"
  by (simp add: list_databases_def comp_defs sample_queries sample_tz sample_selectbox
      widened_db_rows_def sample_db_rows_def DataFrame_def data_width_def db_columns_def
      pad_row_def first_column_def)

lemma sample_schemas:
  "list_schemas (sample_env dbs cols) 1 (PStr ''SALES'') =
     ([Query (schemas_query ''SALES''), Printed ''schema_list:'' sample_schema_rows,
       Selectbox ''Please select the schema that you would like to compare?'' [PStr ''PUBLIC''] 3],
      Inr (PStr ''PUBLIC''))"
  by (simp add: list_schemas_def comp_defs sample_queries sample_selectbox
      sample_schema_rows_def DataFrame_def data_width_def schema_columns_def
      pad_row_def getitem_def)

lemma sample_tables:
  "list_tables (sample_env dbs cols) 1 (PStr ''SALES'') (PStr ''PUBLIC'') =
     ([Query (tables_query ''SALES'' ''PUBLIC''), Printed ''Table List:'' sample_table_rows,
       Selectbox ''Please select the table that you would like to compare?'' [PStr ''ORDERS''] 4],
      Inr (PStr ''ORDERS''))"
  by (simp add: list_tables_def comp_defs sample_queries sample_selectbox
      sample_table_rows_def DataFrame_def data_width_def table_columns_def
      pad_row_def getitem_def)


lemma sample_wide_column_listing:
  "snd (load_sf_db_list
          (sample_env widened_db_rows (map (\<lambda>r. r @ [PNone]) sample_column_rows)) 1) =
     (PNone, PNone, None)"
proof -
  let ?cols = "map (\<lambda>r. r @ [PNone]) sample_column_rows"
  have step4: "column_columns = column_columns \<and>
      list_databases (sample_env widened_db_rows ?cols) 1 =
        ([Query (db_query ''UTC''), Printed ''db_list:'' widened_db_rows,
          Selectbox ''Please select the database that you would like to compare?'' [PStr ''SALES''] 2],
         Inr (PStr ''SALES'')) \<and>
      list_schemas (sample_env widened_db_rows ?cols) 1 (PStr ''SALES'') =
        ([Query (schemas_query ''SALES''), Printed ''schema_list:'' sample_schema_rows,
          Selectbox ''Please select the schema that you would like to compare?'' [PStr ''PUBLIC''] 3],
         Inr (PStr ''PUBLIC'')) \<and>
      list_tables (sample_env widened_db_rows ?cols) 1 (PStr ''SALES'') (PStr ''PUBLIC'') =
        ([Query (tables_query ''SALES'' ''PUBLIC''), Printed ''Table List:'' sample_table_rows,
          Selectbox ''Please select the table that you would like to compare?'' [PStr ''ORDERS''] 4],
         Inr (PStr ''ORDERS'')) \<and>
      run_query_sf (sample_env widened_db_rows ?cols)
        (columns_query ''SALES'' ''PUBLIC'' ''ORDERS'') = Inr ?cols"
    by (simp add: sample_databases sample_schemas sample_tables sample_queries)
  have rows4: "?cols \<noteq> []"
    by (simp add: sample_column_rows_def)
  have width4: "data_width ?cols \<noteq> length column_columns"
    by (simp add: sample_column_rows_def data_width_def column_columns_def)
  show ?thesis
    using later_listing_mismatch_unresolved [OF disjI2 [OF disjI2 [OF step4]] rows4 width4]
    by auto
qed

section \<open>A table without columns\<close>

lemma list_columns_empty:
  "run_query_sf env (columns_query d s t) = Inr [] \<Longrightarrow>
   list_columns env count (PStr d) (PStr s) (PStr t) =
     ([Query (columns_query d s t), Printed ''Column List:'' []],
      Inl (ValueError ''No columns found.''))"
  by (simp add: list_columns_def comp_defs)

text \<open>
  Claim C10. When the column listing of the selected table has no rows, line 78 raises
  \<^verbatim>\<open>ValueError("No columns found.")\<close>, the exception of an empty result, and the message
  shown to the user (and logged) ends with the text \<^verbatim>\<open>No columns found.\<close>; the resolver
  returns \<^verbatim>\<open>(None, None, None)\<close>.
\<close>

theorem no_columns_message:
  assumes s1: "list_databases env count = (es1, Inr (PStr d))"
    and s2: "list_schemas env count (PStr d) = (es2, Inr (PStr s))"
    and s3: "list_tables env count (PStr d) (PStr s) = (es3, Inr (PStr t))"
    and r: "run_query_sf env (columns_query d s t) = Inr []"
  shows "list_columns env count (PStr d) (PStr s) (PStr t) =
           ([Query (columns_query d s t), Printed ''Column List:'' []],
            Inl (ValueError ''No columns found.'')) \<and>
         load_sf_db_list env count =
           (es1 @ es2 @ es3 @
            [Query (columns_query d s t), Printed ''Column List:'' [],
             LogError ''Error loading database/schema/table list: No columns found.'',
             StError ''Error loading database/schema/table list: No columns found.''],
            (PNone, PNone, None))"
proof -
  note s4 = list_columns_empty [OF r, of count]
  have "load_body env count =
      (es1 @ es2 @ es3 @ [Query (columns_query d s t), Printed ''Column List:'' []],
       Inl (ValueError ''No columns found.''))"
    using load_body_columns_raise [OF s1 s2 s3 s4] .
  from load_raises [OF this] show ?thesis
    using s4 by (simp add: load_error_text_def)
qed

text \<open>The theorem at a catalog whose table has no columns.\<close>

theorem no_columns_message_witness:
  "StError ''Error loading database/schema/table list: No columns found.'' \<in>
     set (fst (load_sf_db_list (sample_env widened_db_rows []) 1)) \<and>
   snd (load_sf_db_list (sample_env widened_db_rows []) 1) = (PNone, PNone, None)"
  using no_columns_message [OF sample_databases [of "[]"] sample_schemas [of widened_db_rows "[]"]
      sample_tables [of widened_db_rows "[]"] sample_queries(4) [of widened_db_rows "[]"]]
  by simp


section \<open>The database listing has four columns, the resolver names five\<close>

lemma show_nat_4: "show_nat 4 = ''4''"
  by code_simp

lemma show_nat_5: "show_nat 5 = ''5''"
  by code_simp

lemma data_width_uniform:
  "rows \<noteq> [] \<Longrightarrow> list_all (\<lambda>r. length r = n) rows \<Longrightarrow> data_width rows = n"
proof (induction rows)
  case Nil
  then show ?case by simp
next
  case (Cons r rows)
  then show ?case
    by (cases rows) (simp_all add: data_width_def)
qed

lemma db_columns_length: "length db_columns = 5"
  by (simp add: db_columns_def)

lemma four_column_frame:
  "rows \<noteq> [] \<Longrightarrow> list_all (\<lambda>r. length r = 4) rows \<Longrightarrow>
   DataFrame rows db_columns = Inl (ValueError ''5 columns passed, passed data had 4 columns'')"
proof -
  assume rows: "rows \<noteq> []" and four: "list_all (\<lambda>r. length r = 4) rows"
  have w: "data_width rows = 4"
    using data_width_uniform [OF rows four] .
  have "DataFrame rows db_columns =
      Inl (ValueError (show_nat (length db_columns) @ '' columns passed, passed data had '' @
                       show_nat (data_width rows) @ '' columns''))"
    by (rule DataFrame_mismatch) (simp_all add: rows w db_columns_length)
  then show ?thesis
    by (simp add: w db_columns_length show_nat_4 show_nat_5)
qed

text \<open>
  Claim C3 (the code departs from it). The \<^verbatim>\<open>SELECT\<close> of line 54 names four columns,
  line 58 passes five labels. So for every non-empty database listing of four columns,
  whatever the other three listings hold and whatever the user would select, the resolver
  stops at line 58 and returns \<^verbatim>\<open>(None, None, None)\<close>, not a qualified name.
\<close>

theorem four_column_listing_unresolved:
  assumes r: "run_query_sf env (db_query (current_tz env)) = Inr rows"
    and rows: "rows \<noteq> []"
    and four: "list_all (\<lambda>r. length r = 4) rows"
  shows "load_sf_db_list env count =
           ([Query (db_query (current_tz env)), Printed ''db_list:'' rows,
             LogError ''Error loading database/schema/table list: 5 columns passed, passed data had 4 columns'',
             StError ''Error loading database/schema/table list: 5 columns passed, passed data had 4 columns''],
            (PNone, PNone, None))"
proof -
  note s1 = list_databases_mismatch [OF r rows four_column_frame [OF rows four], of count]
  from load_raises [OF load_body_databases_raise [OF s1]] show ?thesis
    by (simp add: load_error_text_def)
qed

text \<open>The theorem at the sample catalog, whose listings have 4, 5, 5 and 11 columns.\<close>

theorem four_column_listing_unresolved_witness:
  "snd (load_sf_db_list (sample_env sample_db_rows sample_column_rows) 1) = (PNone, PNone, None) \<and>
   snd (load_sf_db_list (sample_env sample_db_rows sample_column_rows) 1) \<noteq>
     (PStr ''SALES.PUBLIC.ORDERS'', PStr ''ID'', Some [PStr ''ID''])"
proof -
  have r: "run_query_sf (sample_env sample_db_rows sample_column_rows)
      (db_query (current_tz (sample_env sample_db_rows sample_column_rows))) = Inr sample_db_rows"
    by (simp add: sample_tz sample_queries)
  have rows: "sample_db_rows \<noteq> []"
    by (simp add: sample_db_rows_def)
  have four: "list_all (\<lambda>r. length r = 4) sample_db_rows"
    by (simp add: sample_db_rows_def)
  from four_column_listing_unresolved [OF r rows four, of 1] show ?thesis
    by simp
qed

text \<open>
  Claim C5 (the code departs from it). The resolver passes 5 labels for the database
  listing, 5 for the schema listing, 5 for the table listing and 11 for the column
  listing. The sample database listing, four columns wide, does not fit the five labels:
  \<^verbatim>\<open>pd.DataFrame\<close> raises and the database step ends before any selection.
\<close>

theorem database_listing_shape:
  "length db_columns = 5 \<and> length schema_columns = 5 \<and> length table_columns = 5 \<and>
   length column_columns = 11 \<and> data_width sample_db_rows = 4 \<and>
   DataFrame sample_db_rows db_columns =
     Inl (ValueError ''5 columns passed, passed data had 4 columns'') \<and>
   list_databases (sample_env sample_db_rows sample_column_rows) 1 =
     ([Query (db_query ''UTC''), Printed ''db_list:'' sample_db_rows],
      Inl (ValueError ''5 columns passed, passed data had 4 columns''))"
proof -
  have w: "data_width sample_db_rows = 4"
    by (simp add: data_width_def sample_db_rows_def)
  have f: "DataFrame sample_db_rows db_columns =
      Inl (ValueError ''5 columns passed, passed data had 4 columns'')"
    by (rule four_column_frame) (simp_all add: sample_db_rows_def)
  have l: "list_databases (sample_env sample_db_rows sample_column_rows) 1 =
     ([Query (db_query ''UTC''), Printed ''db_list:'' sample_db_rows],
      Inl (ValueError ''5 columns passed, passed data had 4 columns''))"
    using list_databases_mismatch [of "sample_env sample_db_rows sample_column_rows"
        sample_db_rows _ 1, OF _ _ f]
    by (simp add: sample_tz sample_queries sample_db_rows_def)
  show ?thesis
    using w f l
    by (simp add: db_columns_def schema_columns_def table_columns_def column_columns_def)
qed


text \<open>
  What the resolver returns when no step raises: the three selected values, joined by
  dots. With the database listing of line 54 this is never reached (see above); the
  lemma describes the run on a listing of five columns.
\<close>

lemma full_qual_name_strings:
  "full_qual_name d0 s0 t0 = Inr name \<Longrightarrow>
   \<exists>d s t. d0 = PStr d \<and> s0 = PStr s \<and> t0 = PStr t \<and> name = d @ ''.'' @ s @ ''.'' @ t"
  by (cases d0; cases s0; cases t0) (auto simp: full_qual_name_def)

lemma resolved_name:
  assumes ok: "load_body env count = (es, Inr (name, k, cols))"
  shows "\<exists>d s t. snd (list_databases env count) = Inr (PStr d) \<and>
           snd (list_schemas env count (PStr d)) = Inr (PStr s) \<and>
           snd (list_tables env count (PStr d) (PStr s)) = Inr (PStr t) \<and>
           name = PStr (d @ ''.'' @ s @ ''.'' @ t)"
proof -
  obtain es1 r1 where s1: "list_databases env count = (es1, r1)"
    by (cases "list_databases env count")
  obtain d0 where d0: "r1 = Inr d0"
    using load_body_databases_raise [of env count es1] s1 ok by (cases r1) auto
  obtain es2 r2 where s2: "list_schemas env count d0 = (es2, r2)"
    by (cases "list_schemas env count d0")
  obtain s0 where s0: "r2 = Inr s0"
    using load_body_schemas_raise [of env count es1 d0 es2] s1 s2 d0 ok by (cases r2) auto
  obtain es3 r3 where s3: "list_tables env count d0 s0 = (es3, r3)"
    by (cases "list_tables env count d0 s0")
  obtain t0 where t0: "r3 = Inr t0"
    using load_body_tables_raise [of env count es1 d0 es2 s0 es3] s1 s2 s3 d0 s0 ok
    by (cases r3) auto
  obtain es4 r4 where s4: "list_columns env count d0 s0 t0 = (es4, r4)"
    by (cases "list_columns env count d0 s0 t0")
  obtain k0 df where kd: "r4 = Inr (k0, df)"
    using load_body_columns_raise [of env count es1 d0 es2 s0 es3 t0 es4] s1 s2 s3 s4 d0 s0 t0 ok
    by (cases r4) auto
  have "bindE (full_qual_name d0 s0 t0) (\<lambda>n.
          bindE (getitem df ''column_name'') (\<lambda>c. Inr (PStr n, k0, Some c))) =
        Inr (name, k, cols)"
    using load_body_columns_return [of env count es1 d0 es2 s0 es3 t0 es4 k0 df]
      s1 s2 s3 s4 d0 s0 t0 kd ok by simp
  then obtain n where n: "full_qual_name d0 s0 t0 = Inr n" and nm: "name = PStr n"
    by (cases "full_qual_name d0 s0 t0"; cases "getitem df ''column_name''") auto
  from full_qual_name_strings [OF n] obtain d s t
    where "d0 = PStr d" "s0 = PStr s" "t0 = PStr t" "n = d @ ''.'' @ s @ ''.'' @ t"
    by blast
  then show ?thesis
    using s1 s2 s3 d0 s0 t0 nm by auto
qed



section \<open>The diff action\<close>

lemma compute_diff_calls:
  "list_all is_engine_call (fst (compute_diff env src tgt w))"
  by (auto simp: compute_diff_def Let_def split: prod.splits option.splits sum.splits)

lemma engine_calls_no_output:
  "list_all is_engine_call es \<Longrightarrow> filter is_output es = [] \<and> filter is_st_error es = []"
proof (induction es)
  case Nil
  then show ?case by simp
next
  case (Cons ev es)
  then show ?case by (cases ev) simp_all
qed

lemma show_table_diff_raises:
  "truthy (fst src) \<Longrightarrow> truthy (fst tgt) \<Longrightarrow> compute_diff env src tgt w = (es, w', Inl e) \<Longrightarrow>
   show_table_diff env src tgt w = (es @ [StError diff_error_text, LogError (message e)], w')"
  by (simp add: show_table_diff_def)

lemma show_table_diff_unselected:
  "\<not> (truthy (fst src) \<and> truthy (fst tgt)) \<Longrightarrow>
   show_table_diff env src tgt w = ([StError not_selected_text], w)"
  unfolding show_table_diff_def by (simp only: if_False)

text \<open>
  Claim C7. When the button is pressed and the qualified name of the source or of the
  target is \<^verbatim>\<open>None\<close>, the handler shows the one message of line 168 and does nothing
  else: it calls neither the engine nor the read-back, and the warehouse stays as it was.
  An engine call or a read-back among the effects means that both names were resolved.
\<close>

theorem diff_guard:
  "(fst src = PNone \<or> fst tgt = PNone \<longrightarrow>
      show_table_diff env src tgt w =
        ([StError ''Source and Target tables must be selected before showing table diff.''], w)) \<and>
   (list_ex is_engine_call (fst (show_table_diff env src tgt w)) \<longrightarrow>
      fst src \<noteq> PNone \<and> fst tgt \<noteq> PNone)"
proof -
  have first: "show_table_diff env src tgt w =
      ([StError ''Source and Target tables must be selected before showing table diff.''], w)"
    if "fst src = PNone \<or> fst tgt = PNone"
  proof -
    from that have "\<not> (truthy (fst src) \<and> truthy (fst tgt))" by auto
    from show_table_diff_unselected [OF this] show ?thesis
      by (simp add: not_selected_text_def)
  qed
  have second: "fst src \<noteq> PNone \<and> fst tgt \<noteq> PNone"
    if calls: "list_ex is_engine_call (fst (show_table_diff env src tgt w))"
  proof -
    have "truthy (fst src) \<and> truthy (fst tgt)"
    proof (rule ccontr)
      assume "\<not> (truthy (fst src) \<and> truthy (fst tgt))"
      from show_table_diff_unselected [OF this, of env w] calls show False by simp
    qed
    then show ?thesis by auto
  qed
  show ?thesis
    using first second by blast
qed

text \<open>The theorem at an unresolved source.\<close>

theorem diff_guard_witness:
  "show_table_diff (sample_engine (Some (PStr ''conn''))) unresolved sample_resolution Map.empty =
     ([StError ''Source and Target tables must be selected before showing table diff.''], Map.empty)"
proof -
  have "fst unresolved = PNone \<or> fst sample_resolution = PNone"
    by (simp add: unresolved_def)
  with diff_guard [of unresolved sample_resolution "sample_engine (Some (PStr ''conn''))" Map.empty]
  show ?thesis by blast
qed

text \<open>
  Claim C9. With both names resolved, let the engine invocation, the read-back or the
  partition raise (lines 123--137 end in an exception). Then the handler catches it: the
  effects are the calls made so far, one user-facing message (line 170) and one log line.
  No chart, heading, download or bucket is put on the page.
\<close>

theorem diff_failure_no_output:
  assumes src: "truthy (fst src)" and tgt: "truthy (fst tgt)"
    and raised: "compute_diff env src tgt w = (es, w', Inl e)"
  shows "show_table_diff env src tgt w =
           (es @ [StError ''Error calculating table differences. Please check your selections and try again.'',
                  LogError (message e)], w') \<and>
         filter is_output (fst (show_table_diff env src tgt w)) = [] \<and>
         filter is_st_error (fst (show_table_diff env src tgt w)) =
           [StError ''Error calculating table differences. Please check your selections and try again.'']"
proof -
  have calls: "list_all is_engine_call es"
    using compute_diff_calls [of env src tgt w] raised by simp
  show ?thesis
    using show_table_diff_raises [OF src tgt raised] engine_calls_no_output [OF calls]
    by (simp add: diff_error_text_def)
qed


lemma sample_unbound:
  "compute_diff (sample_engine None) sample_resolution sample_resolution Map.empty =
     ([], Map.empty,
      Inl (NameError (''name '' @ [CHR 0x27] @ ''SNOWFLAKE_CONN_INFO'' @ [CHR 0x27] @ '' is not defined'')))"
  by (simp add: compute_diff_def sample_engine_def sample_resolution_def)

lemma sample_no_flags:
  "compute_diff
     ((sample_engine (Some (PStr ''conn'')))
        \<lparr>read_sql_query := (\<lambda>q w. Inr \<lparr>df_columns = [''ID_a'', ''ID_b''], df_rows = []\<rparr>)\<rparr>)
     sample_resolution sample_resolution Map.empty =
     ([ConnectToTable (PStr ''conn'') (PStr ''SALES.PUBLIC.ORDERS'') (PStr ''ID''),
       ConnectToTable (PStr ''conn'') (PStr ''SALES.PUBLIC.ORDERS'') (PStr ''ID''),
       DiffTables (Some [PStr ''ID'']) ''SALES.PUBLIC.ORDERS_DIFF'',
       ReadSql ''SELECT * FROM SALES.PUBLIC.ORDERS_DIFF;''],
      [''SALES.PUBLIC.ORDERS_DIFF'' \<mapsto> example_diff],
      Inl (KeyError ''is_exclusive_a''))"
  by (simp add: compute_diff_def sample_engine_def sample_resolution_def Let_def
      materialize_table_name_def read_back_query_def classify_def getitem_def)

text \<open>The theorem at the script as it stands, where \<^verbatim>\<open>SNOWFLAKE_CONN_INFO\<close> is unbound,
  and at a read-back without the flag columns.\<close>

theorem diff_failure_no_output_witness:
  "show_table_diff (sample_engine None) sample_resolution sample_resolution Map.empty =
     ([StError ''Error calculating table differences. Please check your selections and try again.'',
       LogError (''name '' @ [CHR 0x27] @ ''SNOWFLAKE_CONN_INFO'' @ [CHR 0x27] @ '' is not defined'')],
      Map.empty) \<and>
   fst (show_table_diff
     ((sample_engine (Some (PStr ''conn'')))
        \<lparr>read_sql_query := (\<lambda>q w. Inr \<lparr>df_columns = [''ID_a'', ''ID_b''], df_rows = []\<rparr>)\<rparr>)
     sample_resolution sample_resolution Map.empty) =
     [ConnectToTable (PStr ''conn'') (PStr ''SALES.PUBLIC.ORDERS'') (PStr ''ID''),
      ConnectToTable (PStr ''conn'') (PStr ''SALES.PUBLIC.ORDERS'') (PStr ''ID''),
      DiffTables (Some [PStr ''ID'']) ''SALES.PUBLIC.ORDERS_DIFF'',
      ReadSql ''SELECT * FROM SALES.PUBLIC.ORDERS_DIFF;'',
      StError ''Error calculating table differences. Please check your selections and try again.'',
      LogError ([CHR 0x27] @ ''is_exclusive_a'' @ [CHR 0x27])]"
proof -
  have t: "truthy (fst sample_resolution)"
    by (simp add: sample_resolution_def)
  from diff_failure_no_output [OF t t sample_unbound] diff_failure_no_output [OF t t sample_no_flags]
  show ?thesis
    by simp
qed

text \<open>
  The exceptions of \<open>compute_diff\<close>, by the place that raises them: the unbound name, the
  two bindings, the drained diff, the read-back, the partition.
\<close>

lemma compute_diff_raises:
  assumes "compute_diff env (sn, sk, sc) (tn, tk, tc) w = (es, w', Inl e)"
  shows "(SNOWFLAKE_CONN_INFO env = None) \<or>
         (\<exists>info. SNOWFLAKE_CONN_INFO env = Some info \<and>
            (connect_to_table env info sn sk = Inl e \<or>
             (\<exists>h1. connect_to_table env info sn sk = Inr h1 \<and>
                (connect_to_table env info tn tk = Inl e \<or>
                 (\<exists>h2. connect_to_table env info tn tk = Inr h2 \<and>
                    (diff_tables env h1 h2 sc (materialize_table_name tn) w = (Some e, w') \<or>
                     (diff_tables env h1 h2 sc (materialize_table_name tn) w = (None, w') \<and>
                        (read_sql_query env (read_back_query (materialize_table_name tn)) w' = Inl e \<or>
                         (\<exists>diff_op. read_sql_query env (read_back_query (materialize_table_name tn)) w' = Inr diff_op \<and>
                            classify diff_op = Inl e)))))))))"
  using assms
  by (auto simp: compute_diff_def Let_def split: prod.splits option.splits sum.splits)


section \<open>Running the diff action again\<close>

lemma compute_diff_names:
  "ev \<in> set (fst (compute_diff env src tgt w)) \<Longrightarrow>
   (\<forall>cols name. ev = DiffTables cols name \<longrightarrow> name = materialize_table_name (fst tgt)) \<and>
   (\<forall>q. ev = ReadSql q \<longrightarrow> q = read_back_query (materialize_table_name (fst tgt)))"
  by (auto simp: compute_diff_def Let_def split: prod.splits option.splits sum.splits)

lemma render_no_calls:
  "ev \<in> set (fst (render env k c)) \<Longrightarrow> \<not> is_engine_call ev"
  by (auto simp: render_def emit_def lift_def bindC_pair split: sum.splits)

lemma show_table_diff_names:
  assumes ev: "ev \<in> set (fst (show_table_diff env src tgt w))"
  shows "(\<forall>cols name. ev = DiffTables cols name \<longrightarrow> name = materialize_table_name (fst tgt)) \<and>
         (\<forall>q. ev = ReadSql q \<longrightarrow> q = read_back_query (materialize_table_name (fst tgt)))"
proof (cases "is_engine_call ev")
  case False
  then show ?thesis by (cases ev) auto
next
  case True
  obtain es w' r where c: "compute_diff env src tgt w = (es, w', r)"
    by (cases "compute_diff env src tgt w")
  have "ev \<in> set es"
  proof (cases "truthy (fst src) \<and> truthy (fst tgt)")
    case False
    from show_table_diff_unselected [OF this, of env w] ev True show ?thesis by simp
  next
    case t: True
    show ?thesis
    proof (cases r)
      case (Inl e)
      then show ?thesis
        using ev True t c by (auto simp: show_table_diff_def)
    next
      case (Inr cl)
      obtain es' r' where rn: "render env (fst (snd src)) cl = (es', r')"
        by (cases "render env (fst (snd src)) cl")
      have "ev \<notin> set es'"
        using render_no_calls [of ev env "fst (snd src)" cl] rn True by auto
      then show ?thesis
        using ev True t c Inr rn by (cases r') (auto simp: show_table_diff_def)
    qed
  qed
  then show ?thesis
    using compute_diff_names [of ev env src tgt w] c by simp
qed

lemma compute_diff_again:
  assumes overwrite: "\<forall>h1 h2 cols name w0.
      diff_tables env h1 h2 cols name (snd (diff_tables env h1 h2 cols name w0)) =
      diff_tables env h1 h2 cols name w0"
  shows "compute_diff env src tgt (fst (snd (compute_diff env src tgt w))) =
         compute_diff env src tgt w"
proof -
  obtain sn sk sc where src: "src = (sn, sk, sc)" by (cases src)
  obtain tn tk tc where tgt: "tgt = (tn, tk, tc)" by (cases tgt)
  show ?thesis
  proof (cases "SNOWFLAKE_CONN_INFO env")
    case None
    then show ?thesis by (simp add: compute_diff_def src tgt)
  next
    case (Some info)
    show ?thesis
    proof (cases "connect_to_table env info sn sk")
      case (Inl e)
      then show ?thesis by (simp add: compute_diff_def src tgt Some)
    next
      case h1: (Inr h1)
      show ?thesis
      proof (cases "connect_to_table env info tn tk")
        case (Inl e)
        then show ?thesis by (simp add: compute_diff_def src tgt Some h1)
      next
        case h2: (Inr h2)
        obtain r w1 where d: "diff_tables env h1 h2 sc (materialize_table_name tn) w = (r, w1)"
          by (cases "diff_tables env h1 h2 sc (materialize_table_name tn) w")
        have again: "diff_tables env h1 h2 sc (materialize_table_name tn) w1 = (r, w1)"
          using overwrite [rule_format, of h1 h2 sc "materialize_table_name tn" w] d by simp
        have first: "fst (snd (compute_diff env src tgt w)) = w1"
          using d by (cases r) (auto simp: compute_diff_def src tgt Some h1 h2 Let_def split: sum.splits)
        show ?thesis
          unfolding first
          using d again by (simp add: compute_diff_def src tgt Some h1 h2 Let_def)
      qed
    qed
  qed
qed

lemma show_table_diff_state:
  "snd (show_table_diff env src tgt w) =
     (if truthy (fst src) \<and> truthy (fst tgt) then fst (snd (compute_diff env src tgt w)) else w)"
  by (auto simp: show_table_diff_def split: prod.splits sum.splits)

text \<open>
  If the engine overwrites (draining the same diff again in the state it left gives the
  same outcome and the same state), pressing the button again repeats the first run.
\<close>

lemma rerun_repeats_if_engine_overwrites:
  assumes overwrite: "\<forall>h1 h2 cols name w0.
      diff_tables env h1 h2 cols name (snd (diff_tables env h1 h2 cols name w0)) =
      diff_tables env h1 h2 cols name w0"
  shows "show_table_diff env src tgt (snd (show_table_diff env src tgt w)) =
           show_table_diff env src tgt w"
proof (cases "truthy (fst src) \<and> truthy (fst tgt)")
  case False
  then show ?thesis
    using show_table_diff_unselected [OF False, of env] by simp
next
  case True
  then have st: "snd (show_table_diff env src tgt w) = fst (snd (compute_diff env src tgt w))"
    by (simp add: show_table_diff_state)
  show ?thesis
    unfolding st
    using compute_diff_again [OF overwrite, of src tgt w] True
    by (simp add: show_table_diff_def)
qed

text \<open>
  The sample run: the engine is bound to both tables, the diff is materialized under the
  target's name with \<^verbatim>\<open>_DIFF\<close> appended and read back, the chart shows the counts 1, 1
  and 2, and each bucket gets its heading, its download and its key column.
\<close>

lemma sample_classification:
  "classify example_diff =
     Inr \<lparr>not_in_target = example_diff\<lparr>df_rows := [[PBool True, PBool False, PStr ''1'', PNone]]\<rparr>,
          not_in_source = example_diff\<lparr>df_rows := [[PBool False, PBool True, PNone, PStr ''2'']]\<rparr>,
          value_mismatch = example_diff\<lparr>df_rows := [[PBool False, PBool False, PStr ''3'', PStr ''3''],
                                                      [PBool False, PBool False, PStr ''4'', PStr ''4'']]\<rparr>,
          total_not_in_target = 1, total_not_in_source = 1, total_value_mismatch = 2\<rparr>"
  by (simp add: classify_def example_flag_a example_flag_b Let_def loc_def example_rows
      mask_not_in_target_def mask_not_in_source_def mask_value_mismatch_def)

lemma sample_compute_diff:
  "compute_diff (sample_engine (Some (PStr ''conn''))) (PStr ''SALES.PUBLIC.ORDERS'', k, cols)
     sample_resolution Map.empty =
     ([ConnectToTable (PStr ''conn'') (PStr ''SALES.PUBLIC.ORDERS'') k,
       ConnectToTable (PStr ''conn'') (PStr ''SALES.PUBLIC.ORDERS'') (PStr ''ID''),
       DiffTables cols ''SALES.PUBLIC.ORDERS_DIFF'',
       ReadSql ''SELECT * FROM SALES.PUBLIC.ORDERS_DIFF;''],
      [''SALES.PUBLIC.ORDERS_DIFF'' \<mapsto> example_diff],
      classify example_diff)"
  by (simp add: compute_diff_def sample_engine_def sample_resolution_def Let_def
      materialize_table_name_def read_back_query_def)



text \<open>
  An exception after the partition leaves on the page what was put on it before: with a
  key column that the materialized table does not have, line 154 raises
  \<^verbatim>\<open>KeyError\<close> after the chart, the first heading and the first download.
\<close>

lemma render_failure_keeps_output:
  "fst (show_table_diff (sample_engine (Some (PStr ''conn'')))
          (PStr ''SALES.PUBLIC.ORDERS'', PStr ''KEY'', Some [PStr ''ID'']) sample_resolution
          Map.empty) =
     [ConnectToTable (PStr ''conn'') (PStr ''SALES.PUBLIC.ORDERS'') (PStr ''KEY''),
      ConnectToTable (PStr ''conn'') (PStr ''SALES.PUBLIC.ORDERS'') (PStr ''ID''),
      DiffTables (Some [PStr ''ID'']) ''SALES.PUBLIC.ORDERS_DIFF'',
      ReadSql ''SELECT * FROM SALES.PUBLIC.ORDERS_DIFF;'',
      PlotlyChart 1 1 2,
      Subheader ''Missing in Target Table'',
      DownloadButton ''Click to Download'' ''is_exclusive_ais_exclusive_bID_aID_b'' ''not_in_target.csv'',
      StError ''Error calculating table differences. Please check your selections and try again.'',
      LogError ([CHR 0x27] @ ''KEY_a'' @ [CHR 0x27])]"
  by (simp add: show_table_diff_def sample_compute_diff sample_classification)
     (simp add: sample_resolution_def render_def emit_def lift_def bindC_pair getitem_def
        example_diff_def sample_engine_def diff_error_text_def)

section \<open>A database listing of five columns is accepted\<close>




section \<open>What a run of the diff action materializes and shows\<close>











end
